theory Spec2Isabelle
  imports Main "HOL-Library.Word" "HOL-Library.Signed_Division"
begin

section \<open>Data model (face_mask_detector.h)\<close>

text \<open>
  The C type \<open>int\<close> is 32 bits wide and signed. It is modelled as a 32-bit word that is
  compared through its two's-complement reading (\<open><s\<close>, \<open>\<le>s\<close>). C leaves signed
  overflow undefined. The first embedding of the function below gives \<open>++\<close> and \<open>--\<close>
  the wrap-around of the machine addition; a second embedding follows the source again
  with the overflow as an outcome of its own, and the two agree on every call that C
  defines.
\<close>

type_synonym c_int = "32 word"

text \<open>The enum \<open>mask_status_t\<close>, with the enumerators in the order of the header.\<close>

datatype mask_status_t =
    MASK_STATUS_UNKNOWN
  | MASK_STATUS_WITH_MASK
  | MASK_STATUS_WITHOUT_MASK
  | MASK_STATUS_INCORRECT_MASK

text \<open>The integer value of an enumerator, used where a status is stored in an \<open>int\<close>.\<close>

fun mask_status_value :: "mask_status_t \<Rightarrow> c_int" where
  "mask_status_value MASK_STATUS_UNKNOWN = 0"
| "mask_status_value MASK_STATUS_WITH_MASK = 1"
| "mask_status_value MASK_STATUS_WITHOUT_MASK = 2"
| "mask_status_value MASK_STATUS_INCORRECT_MASK = 3"

text \<open>
  The struct \<open>face_detection_t\<close>. The rectangle fields \<open>x\<close>, \<open>y\<close>, \<open>width\<close> and
  \<open>height\<close> carry the prefix \<open>face_\<close> here. The two \<open>float\<close> fields are kept as their
  32-bit patterns: the smoothing never reads or writes them. \<open>mask_history\<close> is the
  array \<open>int mask_history[10]\<close>, a list that has 10 elements in every record the
  program can hold.
\<close>

record face_detection_t =
  face_x :: c_int
  face_y :: c_int
  face_width :: c_int
  face_height :: c_int
  confidence :: "32 word"
  mask_status :: mask_status_t
  mask_confidence :: "32 word"
  mask_history :: "c_int list"
  history_index :: c_int
  history_count :: c_int
  stable_status :: mask_status_t
  stable_count :: c_int

text \<open>
  A call of \<open>log_info\<close>: the format string and the arguments that follow it.
\<close>

datatype log_arg = Str string | Num c_int

type_synonym log_call = "string \<times> log_arg list"

text \<open>
  The function-local \<open>static\<close> variables of \<open>apply_temporal_smoothing\<close>, which live
  for the whole process, together with the calls of \<open>log_info\<close> made so far.
\<close>

record smoothing_statics =
  current_locked_status :: mask_status_t
  lock_frames_remaining :: c_int
  same_result_count :: c_int
  previous_result :: mask_status_t
  debug_frame_count :: c_int
  log_calls :: "log_call list"

text \<open>The initialisers of the static variables.\<close>

definition initial_statics :: smoothing_statics where
  "initial_statics =
     \<lparr> current_locked_status = MASK_STATUS_UNKNOWN,
       lock_frames_remaining = 0,
       same_result_count = 0,
       previous_result = MASK_STATUS_UNKNOWN,
       debug_frame_count = 0,
       log_calls = [] \<rparr>"

text \<open>
  A slot of \<open>g_app_state.detections\<close> at program start: the application state is
  declared \<open>static app_state_t g_app_state = {0}\<close>, so every field is zero.
\<close>

definition zero_face :: face_detection_t where
  "zero_face =
     \<lparr> face_x = 0, face_y = 0, face_width = 0, face_height = 0,
       confidence = 0,
       mask_status = MASK_STATUS_UNKNOWN,
       mask_confidence = 0,
       mask_history = replicate 10 0,
       history_index = 0,
       history_count = 0,
       stable_status = MASK_STATUS_UNKNOWN,
       stable_count = 0 \<rparr>"

section \<open>The temporal smoothing (apply_temporal_smoothing)\<close>

text \<open>
  The loop \<open>for (int i = 0; i < 10; i++) face->mask_history[i] = current_status;\<close>
  started at index \<open>i\<close>.
\<close>

function init_history_loop :: "nat \<Rightarrow> c_int list \<Rightarrow> mask_status_t \<Rightarrow> c_int list" where
  "init_history_loop i h current_status =
     (if i < 10
      then init_history_loop (Suc i) (h[i := mask_status_value current_status]) current_status
      else h)"
  by pat_completeness auto
termination
  by (relation "measure (\<lambda>(i, h, s). 10 - i)") auto

text \<open>The first call for a face: the branch \<open>face->history_count == 0\<close>.\<close>

definition init_history :: "face_detection_t \<Rightarrow> mask_status_t \<Rightarrow> face_detection_t" where
  "init_history face current_status =
     face\<lparr> mask_history := init_history_loop 0 (mask_history face) current_status,
           history_index := 0,
           history_count := 1,
           stable_status := current_status,
           stable_count := 1 \<rparr>"

text \<open>Counting consecutive identical results.\<close>

definition count_consecutive :: "smoothing_statics \<Rightarrow> mask_status_t \<Rightarrow> smoothing_statics" where
  "count_consecutive st current_status =
     (if current_status = previous_result st
      then st\<lparr> same_result_count := same_result_count st + 1 \<rparr>
      else st\<lparr> same_result_count := 1, previous_result := current_status \<rparr>)"

text \<open>The strings chosen by the conditional expressions of the debug output.\<close>

definition status_label :: "mask_status_t \<Rightarrow> string" where
  "status_label s =
     (if s = MASK_STATUS_WITH_MASK then ''MASK''
      else if s = MASK_STATUS_WITHOUT_MASK then ''NO-MASK''
      else ''UNKNOWN'')"

definition locked_label :: "mask_status_t \<Rightarrow> string" where
  "locked_label s = (if s = MASK_STATUS_WITH_MASK then ''MASK'' else ''NO-MASK'')"

text \<open>
  The debug output: the counter is incremented first, and every 30th value logs the
  status and, when a lock is active, the lock.
\<close>

definition debug_output :: "smoothing_statics \<Rightarrow> mask_status_t \<Rightarrow> smoothing_statics" where
  "debug_output st current_status =
     (let st1 = st\<lparr> debug_frame_count := debug_frame_count st + 1 \<rparr>
      in if sint (debug_frame_count st1) smod 30 = 0
         then
           (let st2 = st1\<lparr> log_calls := log_calls st1 @
                          [(''Detection status: %s (count: %d)'',
                            [Str (status_label current_status), Num (same_result_count st1)])] \<rparr>
            in if current_locked_status st2 \<noteq> MASK_STATUS_UNKNOWN
               then st2\<lparr> log_calls := log_calls st2 @
                          [(''Locked to: %s, frames left: %d'',
                            [Str (locked_label (current_locked_status st2)),
                             Num (lock_frames_remaining st2)])] \<rparr>
               else st2)
         else st1)"

text \<open>
  The end of the function, reached when no branch of the locking logic has returned:
  the debug output, then the stable status of the face unless it is unknown.
\<close>

definition fallback ::
  "smoothing_statics \<Rightarrow> face_detection_t \<Rightarrow> mask_status_t
     \<Rightarrow> mask_status_t \<times> smoothing_statics \<times> face_detection_t option" where
  "fallback st face current_status =
     (let st1 = debug_output st current_status
      in if stable_status face \<noteq> MASK_STATUS_UNKNOWN
         then (stable_status face, st1, Some face)
         else (current_status, st1, Some face))"

text \<open>The duration of a new lock: \<open>(current_status == MASK_STATUS_WITH_MASK) ? 90 : 60\<close>.\<close>

definition lock_duration :: "mask_status_t \<Rightarrow> c_int" where
  "lock_duration current_status = (if current_status = MASK_STATUS_WITH_MASK then 90 else 60)"

text \<open>
  The status locking logic, entered after the streak has been counted. Each \<open>return\<close>
  of the source is a result here; the paths without one end in \<open>fallback\<close>.
\<close>

definition status_locking ::
  "smoothing_statics \<Rightarrow> face_detection_t \<Rightarrow> mask_status_t
     \<Rightarrow> mask_status_t \<times> smoothing_statics \<times> face_detection_t option" where
  "status_locking st face current_status =
     (if current_locked_status st \<noteq> MASK_STATUS_UNKNOWN
      then
        (let st1 = st\<lparr> lock_frames_remaining := lock_frames_remaining st - 1 \<rparr>
         in if 0 <s lock_frames_remaining st1
            then
              (if current_locked_status st1 = MASK_STATUS_WITH_MASK \<and>
                  current_status = MASK_STATUS_WITHOUT_MASK \<and>
                  8 \<le>s same_result_count st1
               then (current_status,
                     st1\<lparr> current_locked_status := current_status,
                          lock_frames_remaining := 60 \<rparr>,
                     Some face)
               else (current_locked_status st1, st1, Some face))
            else
              (if 12 \<le>s same_result_count st1 \<and> current_status \<noteq> current_locked_status st1
               then (current_status,
                     st1\<lparr> current_locked_status := current_status,
                          lock_frames_remaining := lock_duration current_status \<rparr>,
                     Some face)
               else if same_result_count st1 <s 12
               then (current_locked_status st1,
                     st1\<lparr> lock_frames_remaining := 20 \<rparr>,
                     Some face)
               else fallback st1 face current_status))
      else
        (if 5 \<le>s same_result_count st
         then (current_status,
               st\<lparr> current_locked_status := current_status,
                    lock_frames_remaining := lock_duration current_status \<rparr>,
               Some face)
         else fallback st face current_status))"

text \<open>
  The whole function. The pointer \<open>face\<close> is \<open>None\<close> when it is null. The result is
  the returned status, the static variables after the call and the record behind the
  pointer after the call.
\<close>

definition apply_temporal_smoothing ::
  "smoothing_statics \<Rightarrow> face_detection_t option \<Rightarrow> mask_status_t
     \<Rightarrow> mask_status_t \<times> smoothing_statics \<times> face_detection_t option" where
  "apply_temporal_smoothing st face_ptr current_status =
     (case face_ptr of
        None \<Rightarrow> (current_status, st, None)
      | Some face \<Rightarrow>
          if history_count face = 0
          then (current_status, st, Some (init_history face current_status))
          else status_locking (count_consecutive st current_status) face current_status)"

section \<open>Calls on the detections array\<close>

text \<open>
  The callers pass \<open>&faces[i]\<close>, a slot of the array \<open>detections\<close> of the application
  state. The process state is the static variables and the slots; a call names a slot
  (or the null pointer) and the raw status. The array of the source has \<open>MAX_FACES\<close>
  slots; the model does not bound the index, and no result below depends on a bound.
\<close>

record process_state =
  statics :: smoothing_statics
  detections :: "nat \<Rightarrow> face_detection_t"

definition initial_process :: process_state where
  "initial_process = \<lparr> statics = initial_statics, detections = (\<lambda>i. zero_face) \<rparr>"

type_synonym smoothing_call = "nat option \<times> mask_status_t"

definition smooth_slot :: "process_state \<Rightarrow> smoothing_call \<Rightarrow> mask_status_t \<times> process_state" where
  "smooth_slot ps c =
     (case apply_temporal_smoothing (statics ps) (map_option (detections ps) (fst c)) (snd c) of
        (r, st, face') \<Rightarrow>
          (r, \<lparr> statics = st,
                detections = (case (fst c, face') of
                                (Some i, Some f) \<Rightarrow> (detections ps)(i := f)
                              | _ \<Rightarrow> detections ps) \<rparr>))"

text \<open>A sequence of calls, collecting the returned statuses in order.\<close>

fun smooth_calls :: "process_state \<Rightarrow> smoothing_call list \<Rightarrow> mask_status_t list \<times> process_state" where
  "smooth_calls ps [] = ([], ps)"
| "smooth_calls ps (c # cs) =
     (case smooth_slot ps c of
        (r, ps1) \<Rightarrow> (case smooth_calls ps1 cs of (rs, ps2) \<Rightarrow> (r # rs, ps2)))"

section \<open>The call that clears the lock\<close>

text \<open>
  The one situation in which the branch for an expired lock (lines 165 to 171 of the
  source) writes \<open>MASK_STATUS_UNKNOWN\<close> into \<open>current_locked_status\<close>: a call that is
  not null and not the first for its face, with the raw status \<open>MASK_STATUS_UNKNOWN\<close>,
  the countdown at most 0 after its decrement and the streak at least 12 after counting.
\<close>

definition clearing_call :: "process_state \<Rightarrow> smoothing_call \<Rightarrow> bool" where
  "clearing_call ps c =
     (case fst c of
        None \<Rightarrow> False
      | Some i \<Rightarrow>
          history_count (detections ps i) \<noteq> 0 \<and>
          snd c = MASK_STATUS_UNKNOWN \<and>
          lock_frames_remaining (statics ps) - 1 \<le>s 0 \<and>
          12 \<le>s same_result_count (count_consecutive (statics ps) (snd c)))"

text \<open>No call of the run is a clearing call in the state in which it is made.\<close>

fun no_clearing_call :: "process_state \<Rightarrow> smoothing_call list \<Rightarrow> bool" where
  "no_clearing_call ps [] = True"
| "no_clearing_call ps (c # cs) =
     (\<not> clearing_call ps c \<and> no_clearing_call (snd (smooth_slot ps c)) cs)"

text \<open>The locked status is not \<open>MASK_STATUS_UNKNOWN\<close> after any call of the run.\<close>

fun lock_kept_throughout :: "process_state \<Rightarrow> smoothing_call list \<Rightarrow> bool" where
  "lock_kept_throughout ps [] = True"
| "lock_kept_throughout ps (c # cs) =
     (current_locked_status (statics (snd (smooth_slot ps c))) \<noteq> MASK_STATUS_UNKNOWN \<and>
      lock_kept_throughout (snd (smooth_slot ps c)) cs)"

section \<open>The smoothing with signed overflow reported\<close>

















section \<open>States used in the examples\<close>

text \<open>A slot after its first call with status \<open>s\<close>.\<close>

definition seeded_face :: "mask_status_t \<Rightarrow> face_detection_t" where
  "seeded_face s = init_history zero_face s"

text \<open>
  The static variables with no lock, after a streak of \<open>n\<close> results \<open>s\<close> and \<open>d\<close>
  passes through the debug output.
\<close>

definition unlocked_statics :: "c_int \<Rightarrow> mask_status_t \<Rightarrow> c_int \<Rightarrow> smoothing_statics" where
  "unlocked_statics n s d =
     initial_statics\<lparr> same_result_count := n, previous_result := s, debug_frame_count := d \<rparr>"

text \<open>
  The static variables with a lock on \<open>l\<close> that has \<open>k\<close> frames left, after a streak
  of \<open>n\<close> results \<open>s\<close>.
\<close>

definition locked_statics ::
  "mask_status_t \<Rightarrow> c_int \<Rightarrow> c_int \<Rightarrow> mask_status_t \<Rightarrow> smoothing_statics" where
  "locked_statics l k n s =
     initial_statics\<lparr> current_locked_status := l, lock_frames_remaining := k,
                      same_result_count := n, previous_result := s \<rparr>"

text \<open>
  Two slots past their first call, slot 0 seeded with a mask and slot 1 without, and
  four results "with mask" counted since.
\<close>

definition two_faces :: process_state where
  "two_faces =
     \<lparr> statics = unlocked_statics 4 MASK_STATUS_WITH_MASK 4,
       detections = (\<lambda>i. zero_face)
         (0 := seeded_face MASK_STATUS_WITH_MASK, 1 := seeded_face MASK_STATUS_WITHOUT_MASK) \<rparr>"

text \<open>
  One face that is first seen without a mask and then reported with a mask for \<open>n\<close>
  frames in a row, on slot 0 of a fresh process.
\<close>

definition mask_put_on :: "nat \<Rightarrow> smoothing_call list" where
  "mask_put_on n =
     (Some 0, MASK_STATUS_WITHOUT_MASK) # replicate n (Some 0, MASK_STATUS_WITH_MASK)"

text \<open>
  A fresh process after six calls on slot 0 with the status "with mask": the first call
  for the face and five more, the last of which sets the lock.
\<close>

definition mask_locked :: process_state where
  "mask_locked = snd (smooth_calls initial_process (replicate 6 (Some 0, MASK_STATUS_WITH_MASK)))"

section \<open>Auxiliary facts\<close>

lemma debug_output_keeps [simp]:
  "current_locked_status (debug_output st c) = current_locked_status st"
  "lock_frames_remaining (debug_output st c) = lock_frames_remaining st"
  "same_result_count (debug_output st c) = same_result_count st"
  "previous_result (debug_output st c) = previous_result st"
  by (simp_all add: debug_output_def Let_def)

lemma count_consecutive_keeps [simp]:
  "current_locked_status (count_consecutive st c) = current_locked_status st"
  "lock_frames_remaining (count_consecutive st c) = lock_frames_remaining st"
  "debug_frame_count (count_consecutive st c) = debug_frame_count st"
  "log_calls (count_consecutive st c) = log_calls st"
  "previous_result (count_consecutive st c) = c"
  by (simp_all add: count_consecutive_def)

lemma count_consecutive_streak:
  "same_result_count (count_consecutive st c) =
     (if c = previous_result st then same_result_count st + 1 else 1)"
  by (simp add: count_consecutive_def)

lemma one_sless_eight: "(1::c_int) <s 8"
  by (simp add: word_sless_alt)

lemma new_lock_not_expired: "(0::c_int) <s 90 - 1" "(0::c_int) <s 60 - 1"
  by (simp_all add: word_sless_alt)

lemma status_locking_face [simp]:
  "snd (snd (status_locking st face R)) = Some face"
  by (simp add: status_locking_def fallback_def Let_def)

lemma apply_temporal_smoothing_face:
  "snd (snd (apply_temporal_smoothing st (Some face) R)) =
     Some (if history_count face = 0 then init_history face R else face)"
  by (simp add: apply_temporal_smoothing_def)

lemma status_locking_reads_stable_status:
  "stable_status face2 = stable_status face \<Longrightarrow>
   fst (status_locking st face2 R) = fst (status_locking st face R)
   \<and> fst (snd (status_locking st face2 R)) = fst (snd (status_locking st face R))"
  by (simp add: status_locking_def fallback_def Let_def)

lemma smooth_slot_statics:
  "statics (snd (smooth_slot ps c)) =
     fst (snd (apply_temporal_smoothing (statics ps) (map_option (detections ps) (fst c)) (snd c)))"
  by (simp add: smooth_slot_def split: prod.splits)

lemma smooth_slot_result:
  "fst (smooth_slot ps c) =
     fst (apply_temporal_smoothing (statics ps) (map_option (detections ps) (fst c)) (snd c))"
  by (simp add: smooth_slot_def split: prod.splits)

lemma smooth_slot_detections:
  "detections (snd (smooth_slot ps (p, R))) =
     (case p of
        None \<Rightarrow> detections ps
      | Some i \<Rightarrow> (detections ps)
          (i := if history_count (detections ps i) = 0
                then init_history (detections ps i) R else detections ps i))"
proof (cases p)
  case None
  then show ?thesis
    by (simp add: smooth_slot_def apply_temporal_smoothing_def)
next
  case (Some i)
  obtain r st fp
    where res: "apply_temporal_smoothing (statics ps) (Some (detections ps i)) R = (r, st, fp)"
    by (metis prod_cases3)
  with apply_temporal_smoothing_face [of "statics ps" "detections ps i" R]
  have "fp = Some (if history_count (detections ps i) = 0
                then init_history (detections ps i) R else detections ps i)"
    by simp
  with Some res show ?thesis
    by (simp add: smooth_slot_def)
qed

lemma smooth_slot_keeps_initialised:
  assumes "history_count (detections ps i) \<noteq> 0"
  shows "detections (snd (smooth_slot ps c)) i = detections ps i"
proof -
  obtain p R where c: "c = (p, R)" by (cases c)
  show ?thesis
    using assms unfolding c smooth_slot_detections
    by (cases p) auto
qed

lemma smooth_calls_Cons_state:
  "snd (smooth_calls ps (c # cs)) = snd (smooth_calls (snd (smooth_slot ps c)) cs)"
  by (simp split: prod.splits)

lemma smooth_calls_keeps_initialised:
  "history_count (detections ps i) \<noteq> 0 \<Longrightarrow>
   detections (snd (smooth_calls ps cs)) i = detections ps i"
proof (induction cs arbitrary: ps)
  case Nil
  then show ?case by simp
next
  case (Cons c cs)
  from Cons.prems have keep: "detections (snd (smooth_slot ps c)) i = detections ps i"
    by (rule smooth_slot_keeps_initialised)
  with Cons.prems have "history_count (detections (snd (smooth_slot ps c)) i) \<noteq> 0" by simp
  from Cons.IH [OF this] keep show ?case
    unfolding smooth_calls_Cons_state by simp
qed


lemmas example_defs =
  seeded_face_def init_history_def zero_face_def unlocked_statics_def locked_statics_def
  initial_statics_def two_faces_def count_consecutive_def

section \<open>Facts about the clearing call\<close>

lemma status_locking_clears_lock_iff:
  assumes "current_locked_status st \<noteq> MASK_STATUS_UNKNOWN"
  shows "(current_locked_status (fst (snd (status_locking st face R))) = MASK_STATUS_UNKNOWN)
           = (R = MASK_STATUS_UNKNOWN \<and> lock_frames_remaining st - 1 \<le>s 0
              \<and> 12 \<le>s same_result_count st)"
  using assms
  by (auto simp add: status_locking_def fallback_def Let_def signed.not_less [symmetric])

lemma smooth_slot_clears_lock_iff:
  assumes "current_locked_status (statics ps) \<noteq> MASK_STATUS_UNKNOWN"
  shows "(current_locked_status (statics (snd (smooth_slot ps c))) = MASK_STATUS_UNKNOWN)
           = clearing_call ps c"
proof (cases "fst c")
  case None
  with assms show ?thesis
    by (simp add: smooth_slot_statics clearing_call_def apply_temporal_smoothing_def)
next
  case (Some i)
  show ?thesis
  proof (cases "history_count (detections ps i) = 0")
    case True
    with Some assms show ?thesis
      by (simp add: smooth_slot_statics clearing_call_def apply_temporal_smoothing_def)
  next
    case False
    with Some assms
      status_locking_clears_lock_iff
        [of "count_consecutive (statics ps) (snd c)" "detections ps i" "snd c"]
    show ?thesis
      by (simp add: smooth_slot_statics clearing_call_def apply_temporal_smoothing_def)
  qed
qed

lemma lock_kept_iff_no_clearing_call:
  "current_locked_status (statics ps) \<noteq> MASK_STATUS_UNKNOWN \<Longrightarrow>
   lock_kept_throughout ps cs = no_clearing_call ps cs"
proof (induction cs arbitrary: ps)
  case Nil
  show ?case by simp
next
  case (Cons c cs)
  show ?case
  proof (cases "clearing_call ps c")
    case True
    with smooth_slot_clears_lock_iff [OF Cons.prems, of c] show ?thesis by simp
  next
    case False
    with smooth_slot_clears_lock_iff [OF Cons.prems, of c]
    have kept: "current_locked_status (statics (snd (smooth_slot ps c))) \<noteq> MASK_STATUS_UNKNOWN"
      by simp
    from Cons.IH [OF kept] kept False show ?thesis by simp
  qed
qed

lemma no_clearing_call_keeps_lock:
  "current_locked_status (statics ps) \<noteq> MASK_STATUS_UNKNOWN \<Longrightarrow> no_clearing_call ps cs \<Longrightarrow>
   current_locked_status (statics (snd (smooth_calls ps cs))) \<noteq> MASK_STATUS_UNKNOWN"
proof (induction cs arbitrary: ps)
  case Nil
  then show ?case by simp
next
  case (Cons c cs)
  from Cons.prems(2) have nc: "\<not> clearing_call ps c"
    and rest: "no_clearing_call (snd (smooth_slot ps c)) cs"
    by simp_all
  from smooth_slot_clears_lock_iff [OF Cons.prems(1), of c] nc
  have "current_locked_status (statics (snd (smooth_slot ps c))) \<noteq> MASK_STATUS_UNKNOWN"
    by simp
  from Cons.IH [OF this rest] show ?case
    unfolding smooth_calls_Cons_state .
qed

section \<open>Facts about signed overflow\<close>































section \<open>Establishing a lock\<close>

text \<open>
  C1. On a call that is not the first for its face, with no active lock
  (\<open>current_locked_status\<close> is \<open>MASK_STATUS_UNKNOWN\<close>): when the streak after counting
  is at least 5, the call sets the locked status to the raw status \<open>R\<close>, sets the
  countdown to 90 for \<open>MASK_STATUS_WITH_MASK\<close> and to 60 otherwise, and returns \<open>R\<close>;
  when the streak is below 5, no lock is set and the countdown is not written.
\<close>

theorem lock_established_when_unlocked:
  assumes "history_count face \<noteq> 0"
    and "current_locked_status st = MASK_STATUS_UNKNOWN"
  shows "(5 \<le>s same_result_count (count_consecutive st R) \<longrightarrow>
            apply_temporal_smoothing st (Some face) R =
              (R,
               (count_consecutive st R)
                 \<lparr> current_locked_status := R,
                   lock_frames_remaining := (if R = MASK_STATUS_WITH_MASK then 90 else 60) \<rparr>,
               Some face))
       \<and> (same_result_count (count_consecutive st R) <s 5 \<longrightarrow>
            current_locked_status (fst (snd (apply_temporal_smoothing st (Some face) R)))
              = MASK_STATUS_UNKNOWN
            \<and> lock_frames_remaining (fst (snd (apply_temporal_smoothing st (Some face) R)))
              = lock_frames_remaining st)"
  using assms
  by (simp add: apply_temporal_smoothing_def status_locking_def fallback_def Let_def
      lock_duration_def signed.not_less [symmetric])

theorem lock_established_when_unlocked_witness:
  "history_count (seeded_face MASK_STATUS_WITH_MASK) \<noteq> 0
   \<and> current_locked_status (unlocked_statics 4 MASK_STATUS_WITH_MASK 4) = MASK_STATUS_UNKNOWN
   \<and> 5 \<le>s same_result_count
            (count_consecutive (unlocked_statics 4 MASK_STATUS_WITH_MASK 4) MASK_STATUS_WITH_MASK)
   \<and> apply_temporal_smoothing (unlocked_statics 4 MASK_STATUS_WITH_MASK 4)
        (Some (seeded_face MASK_STATUS_WITH_MASK)) MASK_STATUS_WITH_MASK
       = (MASK_STATUS_WITH_MASK,
          (unlocked_statics 5 MASK_STATUS_WITH_MASK 4)
             \<lparr> current_locked_status := MASK_STATUS_WITH_MASK, lock_frames_remaining := 90 \<rparr>,
          Some (seeded_face MASK_STATUS_WITH_MASK))
   \<and> same_result_count
        (count_consecutive (unlocked_statics 4 MASK_STATUS_WITH_MASK 4) MASK_STATUS_WITHOUT_MASK) <s 5
   \<and> current_locked_status (fst (snd (apply_temporal_smoothing
        (unlocked_statics 4 MASK_STATUS_WITH_MASK 4)
        (Some (seeded_face MASK_STATUS_WITH_MASK)) MASK_STATUS_WITHOUT_MASK))) = MASK_STATUS_UNKNOWN"
proof -
  let ?f = "seeded_face MASK_STATUS_WITH_MASK"
  let ?st = "unlocked_statics 4 MASK_STATUS_WITH_MASK 4"
  have h1: "history_count ?f \<noteq> 0"
    by (simp add: example_defs)
  have h2: "current_locked_status ?st = MASK_STATUS_UNKNOWN"
    by (simp add: example_defs)
  have h3: "5 \<le>s same_result_count (count_consecutive ?st MASK_STATUS_WITH_MASK)"
    by (simp add: example_defs word_sle_eq)
  have h4: "same_result_count (count_consecutive ?st MASK_STATUS_WITHOUT_MASK) <s 5"
    by (simp add: example_defs word_sless_alt)
  have eq: "(count_consecutive ?st MASK_STATUS_WITH_MASK)
              \<lparr> current_locked_status := MASK_STATUS_WITH_MASK,
                lock_frames_remaining :=
                  (if MASK_STATUS_WITH_MASK = MASK_STATUS_WITH_MASK then 90 else 60) \<rparr>
        = (unlocked_statics 5 MASK_STATUS_WITH_MASK 4)
             \<lparr> current_locked_status := MASK_STATUS_WITH_MASK, lock_frames_remaining := 90 \<rparr>"
    by (simp add: example_defs)
  from lock_established_when_unlocked [OF h1 h2, of MASK_STATUS_WITH_MASK] h3 eq
  have a: "apply_temporal_smoothing ?st (Some ?f) MASK_STATUS_WITH_MASK
       = (MASK_STATUS_WITH_MASK,
          (unlocked_statics 5 MASK_STATUS_WITH_MASK 4)
             \<lparr> current_locked_status := MASK_STATUS_WITH_MASK, lock_frames_remaining := 90 \<rparr>,
          Some ?f)"
    by simp
  from lock_established_when_unlocked [OF h1 h2, of MASK_STATUS_WITHOUT_MASK] h4
  have b: "current_locked_status (fst (snd (apply_temporal_smoothing ?st (Some ?f)
             MASK_STATUS_WITHOUT_MASK))) = MASK_STATUS_UNKNOWN"
    by blast
  from h1 h2 h3 h4 a b show ?thesis by blast
qed

section \<open>A lock with time remaining\<close>

text \<open>
  C2. On a call that is not the first for its face, with the lock on
  \<open>MASK_STATUS_WITH_MASK\<close> and the countdown still positive after its decrement: when the
  raw status is \<open>MASK_STATUS_WITHOUT_MASK\<close> and the streak after counting is at least 8,
  the lock switches to \<open>MASK_STATUS_WITHOUT_MASK\<close> with a countdown of 60 and that status
  is returned; when the streak is below 8, whatever the raw status, the call returns
  \<open>MASK_STATUS_WITH_MASK\<close> and the lock stays, with the countdown decremented. A raw
  status that differs from the previous one resets the streak to 1 and so is held off.
\<close>

theorem with_mask_lock_fast_exit_or_hold:
  assumes "history_count face \<noteq> 0"
    and "current_locked_status st = MASK_STATUS_WITH_MASK"
    and "0 <s lock_frames_remaining st - 1"
  shows "(R = MASK_STATUS_WITHOUT_MASK \<and> 8 \<le>s same_result_count (count_consecutive st R) \<longrightarrow>
            apply_temporal_smoothing st (Some face) R =
              (MASK_STATUS_WITHOUT_MASK,
               (count_consecutive st R)
                 \<lparr> current_locked_status := MASK_STATUS_WITHOUT_MASK,
                   lock_frames_remaining := 60 \<rparr>,
               Some face))
       \<and> (same_result_count (count_consecutive st R) <s 8 \<longrightarrow>
            apply_temporal_smoothing st (Some face) R =
              (MASK_STATUS_WITH_MASK,
               (count_consecutive st R)
                 \<lparr> lock_frames_remaining := lock_frames_remaining st - 1 \<rparr>,
               Some face))
       \<and> (R \<noteq> previous_result st \<longrightarrow>
            same_result_count (count_consecutive st R) = 1
            \<and> fst (apply_temporal_smoothing st (Some face) R) = MASK_STATUS_WITH_MASK)"
  using assms
  by (simp add: apply_temporal_smoothing_def status_locking_def Let_def
      signed.not_less [symmetric] count_consecutive_streak one_sless_eight)

theorem with_mask_lock_fast_exit_or_hold_witness:
  "history_count (seeded_face MASK_STATUS_WITH_MASK) \<noteq> 0
   \<and> current_locked_status (locked_statics MASK_STATUS_WITH_MASK 50 7 MASK_STATUS_WITHOUT_MASK)
        = MASK_STATUS_WITH_MASK
   \<and> 0 <s lock_frames_remaining
             (locked_statics MASK_STATUS_WITH_MASK 50 7 MASK_STATUS_WITHOUT_MASK) - 1
   \<and> 8 \<le>s same_result_count (count_consecutive
             (locked_statics MASK_STATUS_WITH_MASK 50 7 MASK_STATUS_WITHOUT_MASK)
             MASK_STATUS_WITHOUT_MASK)
   \<and> apply_temporal_smoothing (locked_statics MASK_STATUS_WITH_MASK 50 7 MASK_STATUS_WITHOUT_MASK)
        (Some (seeded_face MASK_STATUS_WITH_MASK)) MASK_STATUS_WITHOUT_MASK
       = (MASK_STATUS_WITHOUT_MASK,
          locked_statics MASK_STATUS_WITHOUT_MASK 60 8 MASK_STATUS_WITHOUT_MASK,
          Some (seeded_face MASK_STATUS_WITH_MASK))
   \<and> same_result_count (count_consecutive
        (locked_statics MASK_STATUS_WITH_MASK 50 7 MASK_STATUS_WITHOUT_MASK)
        MASK_STATUS_INCORRECT_MASK) <s 8
   \<and> apply_temporal_smoothing (locked_statics MASK_STATUS_WITH_MASK 50 7 MASK_STATUS_WITHOUT_MASK)
        (Some (seeded_face MASK_STATUS_WITH_MASK)) MASK_STATUS_INCORRECT_MASK
       = (MASK_STATUS_WITH_MASK,
          locked_statics MASK_STATUS_WITH_MASK 49 1 MASK_STATUS_INCORRECT_MASK,
          Some (seeded_face MASK_STATUS_WITH_MASK))"
proof -
  let ?f = "seeded_face MASK_STATUS_WITH_MASK"
  let ?st = "locked_statics MASK_STATUS_WITH_MASK 50 7 MASK_STATUS_WITHOUT_MASK"
  have h1: "history_count ?f \<noteq> 0"
    by (simp add: example_defs)
  have h2: "current_locked_status ?st = MASK_STATUS_WITH_MASK"
    by (simp add: example_defs)
  have h3: "0 <s lock_frames_remaining ?st - 1"
    by (simp add: example_defs word_sless_alt)
  have h4: "8 \<le>s same_result_count (count_consecutive ?st MASK_STATUS_WITHOUT_MASK)"
    by (simp add: example_defs word_sle_eq)
  have h5: "same_result_count (count_consecutive ?st MASK_STATUS_INCORRECT_MASK) <s 8"
    by (simp add: example_defs word_sless_alt)
  have eq1: "(count_consecutive ?st MASK_STATUS_WITHOUT_MASK)
                 \<lparr> current_locked_status := MASK_STATUS_WITHOUT_MASK,
                   lock_frames_remaining := 60 \<rparr>
             = locked_statics MASK_STATUS_WITHOUT_MASK 60 8 MASK_STATUS_WITHOUT_MASK"
    by (simp add: example_defs)
  have eq2: "(count_consecutive ?st MASK_STATUS_INCORRECT_MASK)
                 \<lparr> lock_frames_remaining := lock_frames_remaining ?st - 1 \<rparr>
             = locked_statics MASK_STATUS_WITH_MASK 49 1 MASK_STATUS_INCORRECT_MASK"
    by (simp add: example_defs)
  from with_mask_lock_fast_exit_or_hold [OF h1 h2 h3, of MASK_STATUS_WITHOUT_MASK] h4 eq1
  have a: "apply_temporal_smoothing ?st (Some ?f) MASK_STATUS_WITHOUT_MASK
       = (MASK_STATUS_WITHOUT_MASK,
          locked_statics MASK_STATUS_WITHOUT_MASK 60 8 MASK_STATUS_WITHOUT_MASK, Some ?f)"
    by simp
  from with_mask_lock_fast_exit_or_hold [OF h1 h2 h3, of MASK_STATUS_INCORRECT_MASK] h5 eq2
  have b: "apply_temporal_smoothing ?st (Some ?f) MASK_STATUS_INCORRECT_MASK
       = (MASK_STATUS_WITH_MASK,
          locked_statics MASK_STATUS_WITH_MASK 49 1 MASK_STATUS_INCORRECT_MASK, Some ?f)"
    by simp
  from h1 h2 h3 h4 h5 a b show ?thesis by blast
qed

section \<open>An expired lock\<close>

text \<open>
  C3. On a call that is not the first for its face, with an active lock whose countdown
  is at most 0 after its decrement: when the streak after counting is at least 12 and the
  raw status differs from the locked one, the lock switches to the raw status with a
  countdown of 90 for \<open>MASK_STATUS_WITH_MASK\<close> and 60 otherwise, and the raw status is
  returned; when the streak is below 12, the locked status stays, the countdown is set to
  20 and the locked status is returned.
\<close>

theorem expired_lock_switch_or_extend:
  assumes "history_count face \<noteq> 0"
    and "current_locked_status st \<noteq> MASK_STATUS_UNKNOWN"
    and "lock_frames_remaining st - 1 \<le>s 0"
  shows "(12 \<le>s same_result_count (count_consecutive st R) \<and> R \<noteq> current_locked_status st \<longrightarrow>
            apply_temporal_smoothing st (Some face) R =
              (R,
               (count_consecutive st R)
                 \<lparr> current_locked_status := R,
                   lock_frames_remaining := (if R = MASK_STATUS_WITH_MASK then 90 else 60) \<rparr>,
               Some face))
       \<and> (same_result_count (count_consecutive st R) <s 12 \<longrightarrow>
            apply_temporal_smoothing st (Some face) R =
              (current_locked_status st,
               (count_consecutive st R) \<lparr> lock_frames_remaining := 20 \<rparr>,
               Some face))"
  using assms
  by (simp add: apply_temporal_smoothing_def status_locking_def Let_def lock_duration_def
      signed.not_less [symmetric])

theorem expired_lock_switch_or_extend_witness:
  "history_count (seeded_face MASK_STATUS_WITHOUT_MASK) \<noteq> 0
   \<and> current_locked_status (locked_statics MASK_STATUS_WITHOUT_MASK 1 11 MASK_STATUS_WITH_MASK)
        \<noteq> MASK_STATUS_UNKNOWN
   \<and> lock_frames_remaining
        (locked_statics MASK_STATUS_WITHOUT_MASK 1 11 MASK_STATUS_WITH_MASK) - 1 \<le>s 0
   \<and> 12 \<le>s same_result_count (count_consecutive
              (locked_statics MASK_STATUS_WITHOUT_MASK 1 11 MASK_STATUS_WITH_MASK)
              MASK_STATUS_WITH_MASK)
   \<and> apply_temporal_smoothing (locked_statics MASK_STATUS_WITHOUT_MASK 1 11 MASK_STATUS_WITH_MASK)
        (Some (seeded_face MASK_STATUS_WITHOUT_MASK)) MASK_STATUS_WITH_MASK
       = (MASK_STATUS_WITH_MASK,
          locked_statics MASK_STATUS_WITH_MASK 90 12 MASK_STATUS_WITH_MASK,
          Some (seeded_face MASK_STATUS_WITHOUT_MASK))
   \<and> same_result_count (count_consecutive
        (locked_statics MASK_STATUS_WITHOUT_MASK 1 11 MASK_STATUS_WITH_MASK)
        MASK_STATUS_INCORRECT_MASK) <s 12
   \<and> apply_temporal_smoothing (locked_statics MASK_STATUS_WITHOUT_MASK 1 11 MASK_STATUS_WITH_MASK)
        (Some (seeded_face MASK_STATUS_WITHOUT_MASK)) MASK_STATUS_INCORRECT_MASK
       = (MASK_STATUS_WITHOUT_MASK,
          locked_statics MASK_STATUS_WITHOUT_MASK 20 1 MASK_STATUS_INCORRECT_MASK,
          Some (seeded_face MASK_STATUS_WITHOUT_MASK))"
proof -
  let ?f = "seeded_face MASK_STATUS_WITHOUT_MASK"
  let ?st = "locked_statics MASK_STATUS_WITHOUT_MASK 1 11 MASK_STATUS_WITH_MASK"
  have h1: "history_count ?f \<noteq> 0"
    by (simp add: example_defs)
  have h2: "current_locked_status ?st \<noteq> MASK_STATUS_UNKNOWN"
    by (simp add: example_defs)
  have h3: "lock_frames_remaining ?st - 1 \<le>s 0"
    by (simp add: example_defs word_sle_eq)
  have h4: "12 \<le>s same_result_count (count_consecutive ?st MASK_STATUS_WITH_MASK)"
    by (simp add: example_defs word_sle_eq)
  have h4': "MASK_STATUS_WITH_MASK \<noteq> current_locked_status ?st"
    by (simp add: example_defs)
  have h5: "same_result_count (count_consecutive ?st MASK_STATUS_INCORRECT_MASK) <s 12"
    by (simp add: example_defs word_sless_alt)
  have eq1: "(count_consecutive ?st MASK_STATUS_WITH_MASK)
                 \<lparr> current_locked_status := MASK_STATUS_WITH_MASK,
                   lock_frames_remaining :=
                     (if MASK_STATUS_WITH_MASK = MASK_STATUS_WITH_MASK then 90 else 60) \<rparr>
             = locked_statics MASK_STATUS_WITH_MASK 90 12 MASK_STATUS_WITH_MASK"
    by (simp add: example_defs)
  have eq2: "(count_consecutive ?st MASK_STATUS_INCORRECT_MASK) \<lparr> lock_frames_remaining := 20 \<rparr>
             = locked_statics MASK_STATUS_WITHOUT_MASK 20 1 MASK_STATUS_INCORRECT_MASK"
    by (simp add: example_defs)
  have eq3: "current_locked_status ?st = MASK_STATUS_WITHOUT_MASK"
    by (simp add: example_defs)
  from expired_lock_switch_or_extend [OF h1 h2 h3, of MASK_STATUS_WITH_MASK] h4 h4' eq1
  have a: "apply_temporal_smoothing ?st (Some ?f) MASK_STATUS_WITH_MASK
       = (MASK_STATUS_WITH_MASK,
          locked_statics MASK_STATUS_WITH_MASK 90 12 MASK_STATUS_WITH_MASK, Some ?f)"
    by simp
  from expired_lock_switch_or_extend [OF h1 h2 h3, of MASK_STATUS_INCORRECT_MASK] h5 eq2 eq3
  have b: "apply_temporal_smoothing ?st (Some ?f) MASK_STATUS_INCORRECT_MASK
       = (MASK_STATUS_WITHOUT_MASK,
          locked_statics MASK_STATUS_WITHOUT_MASK 20 1 MASK_STATUS_INCORRECT_MASK, Some ?f)"
    by simp
  from h1 h2 h3 h4 h5 a b show ?thesis by blast
qed

text \<open>
  C6. On a call that is not the first for its face, with an active lock whose countdown
  is at most 0 after its decrement, a streak of at least 12 and a raw status equal to the
  locked one, no branch of the locking logic returns: the call runs the debug output and
  returns the stable status of the face when that is not \<open>MASK_STATUS_UNKNOWN\<close>, and the
  raw status otherwise. The locked status is left as it was.
\<close>

theorem expired_lock_same_status_falls_through:
  assumes "history_count face \<noteq> 0"
    and "current_locked_status st \<noteq> MASK_STATUS_UNKNOWN"
    and "lock_frames_remaining st - 1 \<le>s 0"
    and "12 \<le>s same_result_count (count_consecutive st R)"
    and "R = current_locked_status st"
  shows "apply_temporal_smoothing st (Some face) R =
           ((if stable_status face \<noteq> MASK_STATUS_UNKNOWN then stable_status face else R),
            debug_output
              ((count_consecutive st R)
                 \<lparr> lock_frames_remaining := lock_frames_remaining st - 1 \<rparr>) R,
            Some face)
         \<and> current_locked_status (fst (snd (apply_temporal_smoothing st (Some face) R)))
             = current_locked_status st"
  using assms
  by (simp add: apply_temporal_smoothing_def status_locking_def fallback_def Let_def
      signed.not_less [symmetric])

theorem expired_lock_same_status_falls_through_witness:
  "history_count (seeded_face MASK_STATUS_WITHOUT_MASK) \<noteq> 0
   \<and> current_locked_status (locked_statics MASK_STATUS_WITH_MASK 1 94 MASK_STATUS_WITH_MASK)
        \<noteq> MASK_STATUS_UNKNOWN
   \<and> lock_frames_remaining (locked_statics MASK_STATUS_WITH_MASK 1 94 MASK_STATUS_WITH_MASK) - 1 \<le>s 0
   \<and> 12 \<le>s same_result_count (count_consecutive
              (locked_statics MASK_STATUS_WITH_MASK 1 94 MASK_STATUS_WITH_MASK) MASK_STATUS_WITH_MASK)
   \<and> MASK_STATUS_WITH_MASK
        = current_locked_status (locked_statics MASK_STATUS_WITH_MASK 1 94 MASK_STATUS_WITH_MASK)
   \<and> fst (apply_temporal_smoothing (locked_statics MASK_STATUS_WITH_MASK 1 94 MASK_STATUS_WITH_MASK)
        (Some (seeded_face MASK_STATUS_WITHOUT_MASK)) MASK_STATUS_WITH_MASK)
       = MASK_STATUS_WITHOUT_MASK
   \<and> current_locked_status (fst (snd (apply_temporal_smoothing
        (locked_statics MASK_STATUS_WITH_MASK 1 94 MASK_STATUS_WITH_MASK)
        (Some (seeded_face MASK_STATUS_WITHOUT_MASK)) MASK_STATUS_WITH_MASK)))
       = MASK_STATUS_WITH_MASK"
proof -
  let ?f = "seeded_face MASK_STATUS_WITHOUT_MASK"
  let ?st = "locked_statics MASK_STATUS_WITH_MASK 1 94 MASK_STATUS_WITH_MASK"
  have h1: "history_count ?f \<noteq> 0"
    by (simp add: example_defs)
  have h2: "current_locked_status ?st \<noteq> MASK_STATUS_UNKNOWN"
    by (simp add: example_defs)
  have h3: "lock_frames_remaining ?st - 1 \<le>s 0"
    by (simp add: example_defs word_sle_eq)
  have h4: "12 \<le>s same_result_count (count_consecutive ?st MASK_STATUS_WITH_MASK)"
    by (simp add: example_defs word_sle_eq)
  have h5: "MASK_STATUS_WITH_MASK = current_locked_status ?st"
    by (simp add: example_defs)
  have s: "stable_status ?f = MASK_STATUS_WITHOUT_MASK"
    by (simp add: example_defs)
  note t = expired_lock_same_status_falls_through [OF h1 h2 h3 h4 h5]
  from t s have a: "fst (apply_temporal_smoothing ?st (Some ?f) MASK_STATUS_WITH_MASK)
       = MASK_STATUS_WITHOUT_MASK"
    by simp
  from t h5 have b: "current_locked_status (fst (snd (apply_temporal_smoothing ?st (Some ?f)
       MASK_STATUS_WITH_MASK))) = MASK_STATUS_WITH_MASK"
    by simp
  from h1 h2 h3 h4 h5 a b show ?thesis by blast
qed

section \<open>Repeated identical input\<close>

text \<open>
  C4. A face is first seen without a mask and then reported with a mask on every frame.
  The fifth such call sets the lock on \<open>MASK_STATUS_WITH_MASK\<close> and returns it, and the
  calls that follow return it while the countdown runs. On the 95th call the countdown
  reaches 0 with the streak at 95 and the raw status equal to the locked one: the call
  returns the stable status of the face, \<open>MASK_STATUS_WITHOUT_MASK\<close>, although the lock
  is still on \<open>MASK_STATUS_WITH_MASK\<close> and the input has not changed.
\<close>

theorem repeated_input_after_lock_returns_stable_status:
  "fst (smooth_calls initial_process (mask_put_on 95)) ! 5 = MASK_STATUS_WITH_MASK
   \<and> current_locked_status (statics (snd (smooth_calls initial_process (mask_put_on 5))))
       = MASK_STATUS_WITH_MASK
   \<and> fst (smooth_calls initial_process (mask_put_on 95)) ! 94 = MASK_STATUS_WITH_MASK
   \<and> fst (smooth_calls initial_process (mask_put_on 95)) ! 95 = MASK_STATUS_WITHOUT_MASK
   \<and> current_locked_status (statics (snd (smooth_calls initial_process (mask_put_on 95))))
       = MASK_STATUS_WITH_MASK"
  by code_simp

section \<open>The lock once set\<close>

text \<open>
  C5, as stated, fails: after the lock has been set on \<open>MASK_STATUS_WITH_MASK\<close> with 90
  frames, 90 calls with the raw status \<open>MASK_STATUS_UNKNOWN\<close> let the lock expire with a
  streak of 90, and the expired lock switches to the raw status, which is the "no lock"
  value.
\<close>

theorem lock_cleared_by_unknown_streak:
  "current_locked_status (statics mask_locked) = MASK_STATUS_WITH_MASK
   \<and> lock_frames_remaining (statics mask_locked) = 90
   \<and> current_locked_status (statics (snd (smooth_calls mask_locked
        (replicate 90 (Some 0, MASK_STATUS_UNKNOWN))))) = MASK_STATUS_UNKNOWN"
  by code_simp

text \<open>
  C5, amended. Once the locked status is not \<open>MASK_STATUS_UNKNOWN\<close>, a call makes it
  \<open>MASK_STATUS_UNKNOWN\<close> again exactly when it is a clearing call: raw status
  \<open>MASK_STATUS_UNKNOWN\<close> on a face past its first call, with the lock expired and the
  streak at least 12. Every other call, with a raw \<open>MASK_STATUS_UNKNOWN\<close> or not, keeps a
  lock. So over a sequence of calls, on any slots or the null pointer, the locked status
  stays different from \<open>MASK_STATUS_UNKNOWN\<close> after every call exactly when the sequence
  has no clearing call, and then it is different from it at the end.
\<close>

theorem lock_cleared_only_by_expired_unknown_streak:
  assumes "current_locked_status (statics ps) \<noteq> MASK_STATUS_UNKNOWN"
  shows "(current_locked_status (statics (snd (smooth_slot ps c))) = MASK_STATUS_UNKNOWN)
           = clearing_call ps c
       \<and> lock_kept_throughout ps cs = no_clearing_call ps cs
       \<and> (no_clearing_call ps cs \<longrightarrow>
            current_locked_status (statics (snd (smooth_calls ps cs))) \<noteq> MASK_STATUS_UNKNOWN)"
proof (intro conjI)
  show "(current_locked_status (statics (snd (smooth_slot ps c))) = MASK_STATUS_UNKNOWN)
           = clearing_call ps c"
    using assms by (rule smooth_slot_clears_lock_iff)
  show "lock_kept_throughout ps cs = no_clearing_call ps cs"
    using assms by (rule lock_kept_iff_no_clearing_call)
  show "no_clearing_call ps cs \<longrightarrow>
            current_locked_status (statics (snd (smooth_calls ps cs))) \<noteq> MASK_STATUS_UNKNOWN"
    using assms no_clearing_call_keeps_lock by blast
qed

theorem lock_cleared_only_by_expired_unknown_streak_witness:
  "current_locked_status (statics mask_locked) \<noteq> MASK_STATUS_UNKNOWN
   \<and> no_clearing_call mask_locked (replicate 89 (Some 0, MASK_STATUS_UNKNOWN))
   \<and> current_locked_status (statics (snd (smooth_calls mask_locked
        (replicate 89 (Some 0, MASK_STATUS_UNKNOWN))))) \<noteq> MASK_STATUS_UNKNOWN
   \<and> clearing_call (snd (smooth_calls mask_locked (replicate 89 (Some 0, MASK_STATUS_UNKNOWN))))
        (Some 0, MASK_STATUS_UNKNOWN)
   \<and> current_locked_status (statics (snd (smooth_slot
        (snd (smooth_calls mask_locked (replicate 89 (Some 0, MASK_STATUS_UNKNOWN))))
        (Some 0, MASK_STATUS_UNKNOWN)))) = MASK_STATUS_UNKNOWN"
proof -
  let ?ps89 = "snd (smooth_calls mask_locked (replicate 89 (Some 0, MASK_STATUS_UNKNOWN)))"
  have h1: "current_locked_status (statics mask_locked) \<noteq> MASK_STATUS_UNKNOWN"
    by code_simp
  have h2: "no_clearing_call mask_locked (replicate 89 (Some 0, MASK_STATUS_UNKNOWN))"
    by code_simp
  from lock_cleared_only_by_expired_unknown_streak
         [OF h1, of _ "replicate 89 (Some 0, MASK_STATUS_UNKNOWN)"] h2
  have a: "current_locked_status (statics ?ps89) \<noteq> MASK_STATUS_UNKNOWN"
    by blast
  have h3: "clearing_call ?ps89 (Some 0, MASK_STATUS_UNKNOWN)"
    by code_simp
  from lock_cleared_only_by_expired_unknown_streak [OF a, of "(Some 0, MASK_STATUS_UNKNOWN)"] h3
  have b: "current_locked_status (statics (snd (smooth_slot ?ps89 (Some 0, MASK_STATUS_UNKNOWN))))
             = MASK_STATUS_UNKNOWN"
    by blast
  from h1 h2 a h3 b show ?thesis by blast
qed

section \<open>Totality\<close>




section \<open>The per-face fields\<close>

text \<open>
  C8. A call for a face whose \<open>history_count\<close> is not 0 leaves the record of the face
  exactly as it was, so \<open>stable_status\<close>, \<open>stable_count\<close>, \<open>mask_history\<close>,
  \<open>history_index\<close> and \<open>history_count\<close> keep their values. The returned status and the
  static variables after the call depend on the record only through \<open>stable_status\<close>.
  Over any sequence of calls, on any slots, a slot past its first call keeps its record.
\<close>

theorem face_fields_written_only_by_first_call:
  assumes "history_count face \<noteq> 0"
  shows "snd (snd (apply_temporal_smoothing st (Some face) R)) = Some face
       \<and> (\<forall>face2 :: face_detection_t.
             history_count face2 \<noteq> 0 \<and> stable_status face2 = stable_status face \<longrightarrow>
             fst (apply_temporal_smoothing st (Some face2) R)
               = fst (apply_temporal_smoothing st (Some face) R)
             \<and> fst (snd (apply_temporal_smoothing st (Some face2) R))
               = fst (snd (apply_temporal_smoothing st (Some face) R)))
       \<and> (\<forall>ps i cs. detections ps i = face \<longrightarrow>
             detections (snd (smooth_calls ps cs)) i = face)"
proof (intro conjI allI impI)
  show "snd (snd (apply_temporal_smoothing st (Some face) R)) = Some face"
    using assms by (simp add: apply_temporal_smoothing_face)
next
  fix face2 :: face_detection_t
  assume h: "history_count face2 \<noteq> 0 \<and> stable_status face2 = stable_status face"
  then show "fst (apply_temporal_smoothing st (Some face2) R)
               = fst (apply_temporal_smoothing st (Some face) R)"
    using assms status_locking_reads_stable_status [of face2 face]
    by (simp add: apply_temporal_smoothing_def)
  from h show "fst (snd (apply_temporal_smoothing st (Some face2) R))
               = fst (snd (apply_temporal_smoothing st (Some face) R))"
    using assms status_locking_reads_stable_status [of face2 face]
    by (simp add: apply_temporal_smoothing_def)
next
  fix ps :: process_state and i cs
  assume "detections ps i = face"
  with assms smooth_calls_keeps_initialised [of ps i cs]
  show "detections (snd (smooth_calls ps cs)) i = face" by simp
qed

theorem face_fields_written_only_by_first_call_witness:
  "history_count (seeded_face MASK_STATUS_WITH_MASK) \<noteq> 0
   \<and> snd (snd (apply_temporal_smoothing (unlocked_statics 4 MASK_STATUS_WITH_MASK 4)
        (Some (seeded_face MASK_STATUS_WITH_MASK)) MASK_STATUS_WITHOUT_MASK))
       = Some (seeded_face MASK_STATUS_WITH_MASK)
   \<and> history_count ((seeded_face MASK_STATUS_WITH_MASK)\<lparr> face_x := 7, stable_count := 3 \<rparr>) \<noteq> 0
   \<and> stable_status ((seeded_face MASK_STATUS_WITH_MASK)\<lparr> face_x := 7, stable_count := 3 \<rparr>)
       = stable_status (seeded_face MASK_STATUS_WITH_MASK)
   \<and> fst (apply_temporal_smoothing (unlocked_statics 4 MASK_STATUS_WITH_MASK 4)
        (Some ((seeded_face MASK_STATUS_WITH_MASK)\<lparr> face_x := 7, stable_count := 3 \<rparr>))
        MASK_STATUS_WITHOUT_MASK)
       = fst (apply_temporal_smoothing (unlocked_statics 4 MASK_STATUS_WITH_MASK 4)
        (Some (seeded_face MASK_STATUS_WITH_MASK)) MASK_STATUS_WITHOUT_MASK)
   \<and> detections two_faces 0 = seeded_face MASK_STATUS_WITH_MASK
   \<and> detections (snd (smooth_calls two_faces
        [(Some 0, MASK_STATUS_WITHOUT_MASK), (Some 1, MASK_STATUS_WITH_MASK),
         (None, MASK_STATUS_UNKNOWN)])) 0 = seeded_face MASK_STATUS_WITH_MASK"
proof -
  let ?f = "seeded_face MASK_STATUS_WITH_MASK"
  let ?g = "(seeded_face MASK_STATUS_WITH_MASK)\<lparr> face_x := 7, stable_count := 3 \<rparr>"
  let ?st = "unlocked_statics 4 MASK_STATUS_WITH_MASK 4"
  have h1: "history_count ?f \<noteq> 0"
    by (simp add: example_defs)
  have h2: "history_count ?g \<noteq> 0 \<and> stable_status ?g = stable_status ?f"
    by (simp add: example_defs)
  have h3: "detections two_faces 0 = ?f"
    by (simp add: two_faces_def)
  note t = face_fields_written_only_by_first_call [OF h1, of ?st MASK_STATUS_WITHOUT_MASK]
  from t have a: "snd (snd (apply_temporal_smoothing ?st (Some ?f) MASK_STATUS_WITHOUT_MASK))
       = Some ?f"
    by blast
  from t h2 have b: "fst (apply_temporal_smoothing ?st (Some ?g) MASK_STATUS_WITHOUT_MASK)
       = fst (apply_temporal_smoothing ?st (Some ?f) MASK_STATUS_WITHOUT_MASK)"
    by blast
  from t h3 have c: "detections (snd (smooth_calls two_faces
        [(Some 0, MASK_STATUS_WITHOUT_MASK), (Some 1, MASK_STATUS_WITH_MASK),
         (None, MASK_STATUS_UNKNOWN)])) 0 = ?f"
    by blast
  from h1 h2 h3 a b c show ?thesis by blast
qed

section \<open>One lock for all faces\<close>

text \<open>
  C9. The lock, the countdown, the streak and the previous result are static variables
  of the function, not fields of the face record. For two different slots \<open>a\<close> and \<open>b\<close>,
  both past their first call: when a call on \<open>a\<close> sets a lock on a status \<open>R\<close> other
  than \<open>MASK_STATUS_UNKNOWN\<close>, the next call on \<open>b\<close> returns \<open>R\<close> whatever its raw
  input is. The call on \<open>a\<close> writes no slot.
\<close>

theorem lock_shared_across_faces:
  assumes "a \<noteq> b"
    and "history_count (detections ps a) \<noteq> 0"
    and "history_count (detections ps b) \<noteq> 0"
    and "current_locked_status (statics ps) = MASK_STATUS_UNKNOWN"
    and "R \<noteq> MASK_STATUS_UNKNOWN"
    and "5 \<le>s same_result_count (count_consecutive (statics ps) R)"
  shows "fst (smooth_slot ps (Some a, R)) = R
       \<and> current_locked_status (statics (snd (smooth_slot ps (Some a, R)))) = R
       \<and> detections (snd (smooth_slot ps (Some a, R))) = detections ps
       \<and> (\<forall>X. fst (smooth_slot (snd (smooth_slot ps (Some a, R))) (Some b, X)) = R)"
proof -
  let ?st1 = "(count_consecutive (statics ps) R)
                 \<lparr> current_locked_status := R,
                   lock_frames_remaining := (if R = MASK_STATUS_WITH_MASK then 90 else 60) \<rparr>"
  have call_a: "apply_temporal_smoothing (statics ps) (Some (detections ps a)) R
                  = (R, ?st1, Some (detections ps a))"
    using assms(2,4,6)
    by (simp add: apply_temporal_smoothing_def status_locking_def lock_duration_def)
  then have ps1: "smooth_slot ps (Some a, R) = (R, ps\<lparr> statics := ?st1 \<rparr>)"
    by (simp add: smooth_slot_def)
  have "fst (smooth_slot (ps\<lparr> statics := ?st1 \<rparr>) (Some b, X)) = R" for X
    using assms(3) assms(5) new_lock_not_expired one_sless_eight
    by (simp add: smooth_slot_result apply_temporal_smoothing_def status_locking_def Let_def
        count_consecutive_streak signed.not_less [symmetric])
  with ps1 show ?thesis by simp
qed

theorem lock_shared_across_faces_witness:
  "(0::nat) \<noteq> 1
   \<and> history_count (detections two_faces 0) \<noteq> 0
   \<and> history_count (detections two_faces 1) \<noteq> 0
   \<and> current_locked_status (statics two_faces) = MASK_STATUS_UNKNOWN
   \<and> MASK_STATUS_WITH_MASK \<noteq> MASK_STATUS_UNKNOWN
   \<and> 5 \<le>s same_result_count (count_consecutive (statics two_faces) MASK_STATUS_WITH_MASK)
   \<and> fst (smooth_slot two_faces (Some 0, MASK_STATUS_WITH_MASK)) = MASK_STATUS_WITH_MASK
   \<and> fst (smooth_slot (snd (smooth_slot two_faces (Some 0, MASK_STATUS_WITH_MASK)))
        (Some 1, MASK_STATUS_WITHOUT_MASK)) = MASK_STATUS_WITH_MASK"
proof -
  have h1: "(0::nat) \<noteq> 1" by simp
  have h2: "history_count (detections two_faces 0) \<noteq> 0"
    by (simp add: example_defs)
  have h3: "history_count (detections two_faces 1) \<noteq> 0"
    by (simp add: example_defs)
  have h4: "current_locked_status (statics two_faces) = MASK_STATUS_UNKNOWN"
    by (simp add: example_defs)
  have h5: "MASK_STATUS_WITH_MASK \<noteq> MASK_STATUS_UNKNOWN" by simp
  have h6: "5 \<le>s same_result_count (count_consecutive (statics two_faces) MASK_STATUS_WITH_MASK)"
    by (simp add: example_defs word_sle_eq)
  from lock_shared_across_faces [OF h1 h2 h3 h4 h5 h6] h1 h2 h3 h4 h5 h6
  show ?thesis by blast
qed

section \<open>Null pointer\<close>

text \<open>
  C10. For a null face pointer and any raw status, the call returns the raw status and
  changes nothing: the static variables (lock, countdown, streak, previous result, debug
  counter, log) are as before and no face record is written.
\<close>

theorem null_face_returns_input_unchanged:
  "apply_temporal_smoothing st None current_status = (current_status, st, None)
   \<and> smooth_slot ps (None, current_status) = (current_status, ps)"
  by (simp add: apply_temporal_smoothing_def smooth_slot_def)

end
